theory Spec2Isabelle
  imports Complex_Main "HOL-Library.AList"
begin

section \<open>Peer assessment report: the scoring pipeline of pa_report.py and peer_assessment_report.py\<close>

text \<open>
  The two scripts share \<open>calculate_scores\<close>, \<open>normalize_scores\<close> and \<open>extract_comments\<close>
  word for word; they differ only in \<open>generate_report\<close> (header order against rank order,
  one comment per line against comments joined by a bar).

  Conventions of the embedding:
  \<^item> a CSV row is a list of cells, a cell is a \<open>string\<close>;
  \<^item> a Python \<open>dict\<close> is an association list in insertion order; assignment to a key
    keeps the position of a key that is already there and appends a new one
    (\<open>AList.update\<close>);
  \<^item> an exception is a value \<open>Inl e\<close> of a sum type;
  \<^item> Python's binary64 floats are idealised as exact rationals (\<open>rat\<close>): rounding error
    and overflow of \<open>/\<close>, \<open>+\<close> and \<open>-\<close> are not modelled;
  \<^item> strings are ASCII: the non-ASCII white space and digits that \<open>str.strip\<close> and
    \<open>int\<close> also accept are not modelled;
  \<^item> the registry \<open>students\<close> is a dictionary, so its keys are distinct: theorems about
    the loops over it assume \<open>distinct (map fst students)\<close>.
\<close>

subsection \<open>Python values and built-ins\<close>

datatype py_error = IndexError | KeyError

type_synonym row = "string list"

type_synonym 'v dict = "(string \<times> 'v) list"

text \<open>\<open>xs[i]\<close> for an index that is never negative (all indices come from \<open>enumerate\<close>).\<close>

definition list_getitem :: "'a list \<Rightarrow> nat \<Rightarrow> py_error + 'a" where
  "list_getitem xs i = (if i < length xs then Inr (xs ! i) else Inl IndexError)"

text \<open>\<open>d[k] = v\<close> and \<open>d[k]\<close> on a plain \<open>dict\<close>.\<close>

definition dict_setitem :: "string \<Rightarrow> 'v \<Rightarrow> 'v dict \<Rightarrow> 'v dict" where
  "dict_setitem k v d = AList.update k v d"

definition dict_getitem :: "'v dict \<Rightarrow> string \<Rightarrow> py_error + 'v" where
  "dict_getitem d k = (case map_of d k of None \<Rightarrow> Inl KeyError | Some v \<Rightarrow> Inr v)"

text \<open>The ASCII characters for which \<open>str.isspace\<close> holds: TAB, LF, VT, FF, CR,
  FS, GS, RS, US and the blank.\<close>

definition py_isspace :: "char \<Rightarrow> bool" where
  "py_isspace c = (c \<in> set [CHR 0x09, CHR 0x0A, CHR 0x0B, CHR 0x0C, CHR 0x0D,
                            CHR 0x1C, CHR 0x1D, CHR 0x1E, CHR 0x1F, CHR '' ''])"

text \<open>\<open>s.strip()\<close>.\<close>

definition py_strip :: "string \<Rightarrow> string" where
  "py_strip s = rev (dropWhile py_isspace (rev (dropWhile py_isspace s)))"

definition is_digit :: "char \<Rightarrow> bool" where
  "is_digit c = (c \<in> set ''0123456789'')"

definition digit_val :: "char \<Rightarrow> nat" where
  "digit_val c = of_char c - 48"

text \<open>The digits of a decimal literal after its first digit: one underscore may stand
  between two digits, nowhere else.\<close>

fun digits_value :: "nat \<Rightarrow> string \<Rightarrow> nat option" where
  "digits_value acc [] = Some acc"
| "digits_value acc [c] = (if is_digit c then Some (10 * acc + digit_val c) else None)"
| "digits_value acc (c # d # ds) =
     (if is_digit c then digits_value (10 * acc + digit_val c) (d # ds)
      else if c = CHR ''_'' \<and> is_digit d then digits_value (10 * acc + digit_val d) ds
      else None)"

text \<open>The white space that \<open>int\<close> skips around an ASCII literal: TAB, LF, VT, FF, CR and
  the blank, but not FS, GS, RS, US (a literal with FS before its digits raises
  \<open>ValueError\<close>).\<close>

definition int_isspace :: "char \<Rightarrow> bool" where
  "int_isspace c = (c \<in> set [CHR 0x09, CHR 0x0A, CHR 0x0B, CHR 0x0C, CHR 0x0D, CHR '' ''])"

text \<open>\<open>int(s)\<close> in base ten: white space around, an optional sign, then digits.
  \<open>None\<close> stands for \<open>ValueError\<close>. The limit on the number of digits (4300 by default
  from Python 3.11 on, a \<open>ValueError\<close> beyond it) is not modelled.\<close>

definition py_int :: "string \<Rightarrow> int option" where
  "py_int s =
     (let t = rev (dropWhile int_isspace (rev (dropWhile int_isspace s)));
          neg = (t \<noteq> [] \<and> hd t = CHR ''-'');
          u = (if t \<noteq> [] \<and> (hd t = CHR ''-'' \<or> hd t = CHR ''+'') then tl t else t)
      in case u of
           [] \<Rightarrow> None
         | d # ds \<Rightarrow>
             if is_digit d
             then map_option (\<lambda>n. if neg then - int n else int n) (digits_value (digit_val d) ds)
             else None)"

text \<open>\<open>round(x)\<close> with one argument: the nearest integer, a tie going to the even one.\<close>

definition py_round :: "rat \<Rightarrow> int" where
  "py_round x =
     (let f = \<lfloor>x\<rfloor>; d = x - of_int f
      in if d < 1 / 2 then f else if 1 / 2 < d then f + 1 else if even f then f else f + 1)"

text \<open>\<open>sum(xs) / len(xs)\<close> on a non-empty list of integers.\<close>

definition mean :: "int list \<Rightarrow> rat" where
  "mean xs = of_int (sum_list xs) / of_int (int (length xs))"

subsection \<open>The student registry\<close>

text \<open>The value stored for a student by \<open>extract_students_and_columns\<close>: the dictionary
  with the keys \<open>'overall'\<close> and \<open>'justification'\<close>.\<close>

record cols =
  overall :: nat
  justification :: nat

type_synonym students = "cols dict"

subsection \<open>calculate_scores\<close>

text \<open>\<open>rater = row[name_col] if name_col is not None else None\<close>. The read is outside the
  \<open>try\<close> block, so its \<open>IndexError\<close> leaves the function.\<close>

definition row_rater :: "row \<Rightarrow> nat option \<Rightarrow> py_error + string option" where
  "row_rater row name_col =
     (case name_col of
        None \<Rightarrow> Inr None
      | Some c \<Rightarrow> (case list_getitem row c of Inl e \<Rightarrow> Inl e | Inr s \<Rightarrow> Inr (Some s)))"

text \<open>\<open>int(row[cols['overall']])\<close> under \<open>except (ValueError, IndexError)\<close>: \<open>None\<close> when
  either exception was caught.\<close>

definition rating_cell :: "row \<Rightarrow> nat \<Rightarrow> int option" where
  "rating_cell row c = (case list_getitem row c of Inl e \<Rightarrow> None | Inr s \<Rightarrow> py_int s)"

text \<open>The loop over the rows for one student; its state is \<open>(scores, all_scores)\<close>.\<close>

fun scores_loop ::
  "string \<Rightarrow> cols \<Rightarrow> nat option \<Rightarrow> row list \<Rightarrow> int list \<times> int list \<Rightarrow> py_error + int list \<times> int list"
where
  "scores_loop student c name_col [] st = Inr st"
| "scores_loop student c name_col (row # rows) (scores, all_scores) =
     (case row_rater row name_col of
        Inl e \<Rightarrow> Inl e
      | Inr rater \<Rightarrow>
          if rater = Some student then scores_loop student c name_col rows (scores, all_scores)
          else (case rating_cell row (overall c) of
                  Some score \<Rightarrow>
                    scores_loop student c name_col rows (scores @ [score], all_scores @ [score])
                | None \<Rightarrow> scores_loop student c name_col rows (scores, all_scores)))"

text \<open>\<open>sum(scores) / len(scores) if scores else 0\<close>.\<close>

definition raw_average :: "int list \<Rightarrow> rat" where
  "raw_average scores = (if scores \<noteq> [] then mean scores else 0)"

text \<open>The loop over \<open>students.items()\<close>; its state is \<open>(raw_avgs, all_scores)\<close>.\<close>

fun students_loop ::
  "row list \<Rightarrow> nat option \<Rightarrow> students \<Rightarrow> rat dict \<times> int list \<Rightarrow> py_error + rat dict \<times> int list"
where
  "students_loop data name_col [] st = Inr st"
| "students_loop data name_col ((student, c) # rest) (raw_avgs, all_scores) =
     (case scores_loop student c name_col data ([], all_scores) of
        Inl e \<Rightarrow> Inl e
      | Inr (scores, all_scores') \<Rightarrow>
          students_loop data name_col rest
            (dict_setitem student (raw_average scores) raw_avgs, all_scores'))"

definition calculate_scores ::
  "row list \<Rightarrow> students \<Rightarrow> nat option \<Rightarrow> py_error + rat dict \<times> int list"
where
  "calculate_scores data students name_col = students_loop data name_col students ([], [])"

subsection \<open>normalize_scores\<close>

fun normalise_loop :: "rat \<Rightarrow> rat dict \<Rightarrow> int dict \<Rightarrow> int dict" where
  "normalise_loop adjustment [] normalised = normalised"
| "normalise_loop adjustment ((student, raw) # rest) normalised =
     normalise_loop adjustment rest
       (dict_setitem student (max 0 (min 9 (py_round (raw + adjustment)))) normalised)"

definition normalize_scores :: "rat dict \<Rightarrow> int list \<Rightarrow> rat \<Rightarrow> int dict \<times> rat \<times> rat" where
  "normalize_scores raw_avgs all_scores target =
     (if all_scores = [] then ([], 0, 0)
      else (let group_mean = mean all_scores;
                adjustment = target - group_mean
            in (normalise_loop adjustment raw_avgs [], group_mean, adjustment)))"

subsection \<open>extract_comments\<close>

text \<open>\<open>collections.defaultdict\<close>: the stored items and the value that
  \<open>default_factory\<close> makes (\<open>None\<close> when there is no factory). A read of a missing key
  stores the default under the key and returns it; without a factory it raises
  \<open>KeyError\<close>.\<close>

record 'v defaultdict =
  dd_items :: "'v dict"
  default_factory :: "'v option"

definition defaultdict_getitem ::
  "'v defaultdict \<Rightarrow> string \<Rightarrow> py_error + 'v \<times> 'v defaultdict"
where
  "defaultdict_getitem d k =
     (case map_of (dd_items d) k of
        Some v \<Rightarrow> Inr (v, d)
      | None \<Rightarrow>
          (case default_factory d of
             None \<Rightarrow> Inl KeyError
           | Some v \<Rightarrow> Inr (v, d\<lparr>dd_items := dict_setitem k v (dd_items d)\<rparr>)))"

text \<open>\<open>comments[student].append(comment)\<close>: the read, then the list it returned grows
  in place.\<close>

definition append_comment ::
  "string \<Rightarrow> string \<Rightarrow> string list defaultdict \<Rightarrow> py_error + string list defaultdict"
where
  "append_comment student comment comments =
     (case defaultdict_getitem comments student of
        Inl e \<Rightarrow> Inl e
      | Inr (cs, comments') \<Rightarrow>
          Inr (comments'\<lparr>dd_items := dict_setitem student (cs @ [comment]) (dd_items comments')\<rparr>))"

text \<open>The loop over the rows for one student. The handler is \<open>except IndexError\<close>: any
  other exception of the \<open>try\<close> block leaves the function.\<close>

fun comments_loop ::
  "string \<Rightarrow> cols \<Rightarrow> nat option \<Rightarrow> row list \<Rightarrow> string list defaultdict
     \<Rightarrow> py_error + string list defaultdict"
where
  "comments_loop student c name_col [] comments = Inr comments"
| "comments_loop student c name_col (row # rows) comments =
     (case row_rater row name_col of
        Inl e \<Rightarrow> Inl e
      | Inr rater \<Rightarrow>
          if rater = Some student then comments_loop student c name_col rows comments
          else (case list_getitem row (justification c) of
                  Inl e \<Rightarrow>
                    if e = IndexError then comments_loop student c name_col rows comments
                    else Inl e
                | Inr cell \<Rightarrow>
                    (let comment = py_strip cell
                     in if comment \<noteq> []
                        then (case append_comment student comment comments of
                                Inl e \<Rightarrow>
                                  if e = IndexError
                                  then comments_loop student c name_col rows comments
                                  else Inl e
                              | Inr comments' \<Rightarrow> comments_loop student c name_col rows comments')
                        else comments_loop student c name_col rows comments)))"

fun comments_students_loop ::
  "row list \<Rightarrow> nat option \<Rightarrow> students \<Rightarrow> string list defaultdict
     \<Rightarrow> py_error + string list defaultdict"
where
  "comments_students_loop data name_col [] comments = Inr comments"
| "comments_students_loop data name_col ((student, c) # rest) comments =
     (case comments_loop student c name_col data comments of
        Inl e \<Rightarrow> Inl e
      | Inr comments' \<Rightarrow> comments_students_loop data name_col rest comments')"

definition extract_comments ::
  "row list \<Rightarrow> students \<Rightarrow> nat option \<Rightarrow> py_error + string list defaultdict"
where
  "extract_comments data students name_col =
     comments_students_loop data name_col students \<lparr>dd_items = [], default_factory = Some []\<rparr>"

subsection \<open>generate_report\<close>

text \<open>What the report prints, one constructor for each \<open>print\<close> call, carrying the values
  that the call formats. The layout of a line (widths, the two decimals of a number) is
  not modelled.\<close>

datatype line =
    Rule char
  | Blank
  | Title string
  | TotalStudents nat
  | GroupMeanRaw rat
  | NormalisationAdjustment rat
  | TargetMedian
  | SummaryTable
  | TableHeader string
  | TableRow nat string rat int
  | GroupMean rat
  | Median int
  | IndividualFeedback
  | StudentHeading string
  | Score int
  | PeerComments
  | Comment string
  | JoinedComments string
  | NoComments

text \<open>The lines from the banner to the header of the summary table.\<close>

definition report_head :: "string \<Rightarrow> students \<Rightarrow> rat \<Rightarrow> rat \<Rightarrow> string \<Rightarrow> line list" where
  "report_head first_column students group_mean adjustment title =
     [Rule CHR ''='', Title title, Rule CHR ''='', Blank,
      TotalStudents (length students), GroupMeanRaw group_mean,
      NormalisationAdjustment adjustment, TargetMedian, Blank,
      Rule CHR ''-'', SummaryTable, Rule CHR ''-'', TableHeader first_column, Rule CHR ''-'']"

text \<open>The rows of the summary table: \<open>raw_avgs[student]\<close> and \<open>normalised[student]\<close> are
  reads of plain dictionaries. The result is what was printed and the exception, if one
  was raised.\<close>

fun table_rows ::
  "rat dict \<Rightarrow> int dict \<Rightarrow> nat \<Rightarrow> string list \<Rightarrow> line list \<Rightarrow> line list \<times> py_error option"
where
  "table_rows raw_avgs normalised num [] out = (out, None)"
| "table_rows raw_avgs normalised num (student # rest) out =
     (case dict_getitem raw_avgs student of
        Inl e \<Rightarrow> (out, Some e)
      | Inr raw \<Rightarrow>
          (case dict_getitem normalised student of
             Inl e \<Rightarrow> (out, Some e)
           | Inr score \<Rightarrow>
               table_rows raw_avgs normalised (num + 1) rest
                 (out @ [TableRow num student raw score])))"

text \<open>\<open>sum(normalised.values()) / len(normalised) if normalised else 0\<close>.\<close>

definition int_mean :: "int dict \<Rightarrow> rat" where
  "int_mean normalised = (if normalised \<noteq> [] then mean (map snd normalised) else 0)"

text \<open>\<open>sorted_vals[len(sorted_vals) // 2] if sorted_vals else 0\<close>.\<close>

definition median :: "int list \<Rightarrow> int" where
  "median sorted_vals =
     (if sorted_vals \<noteq> [] then sorted_vals ! (length sorted_vals div 2) else 0)"

definition group_statistics :: "int dict \<Rightarrow> line list" where
  "group_statistics normalised =
     (let sorted_vals = sort (map snd normalised)
      in [GroupMean (int_mean normalised), Median (median sorted_vals), Blank])"

text \<open>The feedback blocks of pa_report.py. Both reads of \<open>comments[student]\<close> are reads
  of the \<open>defaultdict\<close>.\<close>

fun feedback_blocks ::
  "int dict \<Rightarrow> string list defaultdict \<Rightarrow> string list \<Rightarrow> line list
     \<Rightarrow> line list \<times> py_error option"
where
  "feedback_blocks normalised comments [] out = (out, None)"
| "feedback_blocks normalised comments (student # rest) out =
     (let out1 = out @ [Blank, StudentHeading student]
      in case dict_getitem normalised student of
           Inl e \<Rightarrow> (out1, Some e)
         | Inr score \<Rightarrow>
             (let out2 = out1 @ [Score score, Blank]
              in case defaultdict_getitem comments student of
                   Inl e \<Rightarrow> (out2, Some e)
                 | Inr (cs, comments1) \<Rightarrow>
                     if cs \<noteq> []
                     then (let out3 = out2 @ [PeerComments]
                           in case defaultdict_getitem comments1 student of
                                Inl e \<Rightarrow> (out3, Some e)
                              | Inr (cs', comments2) \<Rightarrow>
                                  feedback_blocks normalised comments2 rest
                                    (out3 @ map Comment cs' @ [Blank, Rule CHR ''-'']))
                     else feedback_blocks normalised comments1 rest
                            (out2 @ [NoComments, Blank, Rule CHR ''-''])))"

text \<open>\<open>generate_report\<close> of pa_report.py.\<close>

definition generate_report ::
  "students \<Rightarrow> rat dict \<Rightarrow> int dict \<Rightarrow> string list defaultdict \<Rightarrow> rat \<Rightarrow> rat \<Rightarrow> string
     \<Rightarrow> line list \<times> py_error option"
where
  "generate_report students raw_avgs normalised comments group_mean adjustment title =
     (let student_list = map fst students
      in case table_rows raw_avgs normalised 1 student_list
                (report_head ''#'' students group_mean adjustment title) of
           (out, Some e) \<Rightarrow> (out, Some e)
         | (out, None) \<Rightarrow>
             feedback_blocks normalised comments student_list
               (out @ [Rule CHR ''-''] @ group_statistics normalised
                  @ [Rule CHR ''='', IndividualFeedback, Rule CHR ''='']))"

text \<open>\<open>normalized.get(s, 0)\<close> and \<open>sep.join(xs)\<close>.\<close>

definition dict_get :: "'v dict \<Rightarrow> string \<Rightarrow> 'v \<Rightarrow> 'v" where
  "dict_get d k dflt = (case map_of d k of None \<Rightarrow> dflt | Some v \<Rightarrow> v)"

fun py_join :: "string \<Rightarrow> string list \<Rightarrow> string" where
  "py_join sep [] = []"
| "py_join sep [x] = x"
| "py_join sep (x # y # ys) = x @ sep @ py_join sep (y # ys)"

text \<open>The feedback blocks of peer_assessment_report.py: the comments on one line.\<close>

fun feedback_blocks_joined ::
  "int dict \<Rightarrow> string list defaultdict \<Rightarrow> string list \<Rightarrow> line list
     \<Rightarrow> line list \<times> py_error option"
where
  "feedback_blocks_joined normalized comments [] out = (out, None)"
| "feedback_blocks_joined normalized comments (student # rest) out =
     (let out1 = out @ [Blank, StudentHeading student]
      in case dict_getitem normalized student of
           Inl e \<Rightarrow> (out1, Some e)
         | Inr score \<Rightarrow>
             (let out2 = out1 @ [Score score, Blank]
              in case defaultdict_getitem comments student of
                   Inl e \<Rightarrow> (out2, Some e)
                 | Inr (cs, comments1) \<Rightarrow>
                     if cs \<noteq> []
                     then (let out3 = out2 @ [PeerComments]
                           in case defaultdict_getitem comments1 student of
                                Inl e \<Rightarrow> (out3, Some e)
                              | Inr (cs', comments2) \<Rightarrow>
                                  feedback_blocks_joined normalized comments2 rest
                                    (out3 @ [JoinedComments (py_join '' | '' cs'),
                                             Blank, Rule CHR ''-'']))
                     else feedback_blocks_joined normalized comments1 rest
                            (out2 @ [NoComments, Blank, Rule CHR ''-''])))"

text \<open>\<open>generate_report\<close> of peer_assessment_report.py: the students by falling score,
  students of equal score in header order (\<open>sorted\<close> is stable, also with
  \<open>reverse=True\<close>).\<close>

definition generate_report_ranked ::
  "students \<Rightarrow> rat dict \<Rightarrow> int dict \<Rightarrow> string list defaultdict \<Rightarrow> rat \<Rightarrow> rat \<Rightarrow> string
     \<Rightarrow> line list \<times> py_error option"
where
  "generate_report_ranked students raw_avgs normalized comments group_mean adjustment title =
     (let sorted_students = sort_key (\<lambda>s. - dict_get normalized s 0) (map fst students)
      in case table_rows raw_avgs normalized 1 sorted_students
                (report_head ''Rank'' students group_mean adjustment title) of
           (out, Some e) \<Rightarrow> (out, Some e)
         | (out, None) \<Rightarrow>
             feedback_blocks_joined normalized comments sorted_students
               (out @ [Rule CHR ''-''] @ group_statistics normalized
                  @ [Rule CHR ''='', IndividualFeedback, Rule CHR ''='']))"

subsection \<open>main, after the file is read and the header parsed\<close>

text \<open>The four steps of \<open>main\<close> from \<open>calculate_scores\<close> on, for a registry that is not
  empty (\<open>main\<close> exits before them when it is). The target is the default 5. The result
  is what \<open>generate_report\<close> printed and the exception that ended the run, if any; the
  lines that \<open>main\<close> itself prints before the first step are left out.\<close>

definition run_report ::
  "row list \<Rightarrow> students \<Rightarrow> nat option \<Rightarrow> line list \<times> py_error option"
where
  "run_report data students name_col =
     (case calculate_scores data students name_col of
        Inl e \<Rightarrow> ([], Some e)
      | Inr (raw_avgs, all_scores) \<Rightarrow>
          (case normalize_scores raw_avgs all_scores 5 of
             (normalised, group_mean, adjustment) \<Rightarrow>
               (case extract_comments data students name_col of
                  Inl e \<Rightarrow> ([], Some e)
                | Inr comments \<Rightarrow>
                    generate_report students raw_avgs normalised comments group_mean adjustment
                      ''PEER ASSESSMENT REPORT'')))"

definition run_report_ranked ::
  "row list \<Rightarrow> students \<Rightarrow> nat option \<Rightarrow> line list \<times> py_error option"
where
  "run_report_ranked data students name_col =
     (case calculate_scores data students name_col of
        Inl e \<Rightarrow> ([], Some e)
      | Inr (raw_avgs, all_scores) \<Rightarrow>
          (case normalize_scores raw_avgs all_scores 5 of
             (normalized, group_mean, adjustment) \<Rightarrow>
               (case extract_comments data students name_col of
                  Inl e \<Rightarrow> ([], Some e)
                | Inr comments \<Rightarrow>
                    generate_report_ranked students raw_avgs normalized comments group_mean
                      adjustment ''PEER ASSESSMENT REPORT'')))"

subsection \<open>What a row contributes to a student\<close>

text \<open>The three things a pass of the inner loops does with one row: it reads the rater
  (which may raise), it may accept a rating, it may accept a comment. The loops are
  characterised by these below (\<open>scores_loop_eq\<close>, \<open>comments_loop_eq\<close>).\<close>

definition rows_readable :: "nat option \<Rightarrow> row list \<Rightarrow> bool" where
  "rows_readable name_col data = list_all (\<lambda>row. row_rater row name_col \<noteq> Inl IndexError) data"

definition row_score :: "string \<Rightarrow> cols \<Rightarrow> nat option \<Rightarrow> row \<Rightarrow> int option" where
  "row_score student c name_col row =
     (if row_rater row name_col = Inr (Some student) then None
      else rating_cell row (overall c))"

definition row_comment :: "string \<Rightarrow> cols \<Rightarrow> nat option \<Rightarrow> row \<Rightarrow> string option" where
  "row_comment student c name_col row =
     (if row_rater row name_col = Inr (Some student) then None
      else (case list_getitem row (justification c) of
              Inl e \<Rightarrow> None
            | Inr cell \<Rightarrow> if py_strip cell \<noteq> [] then Some (py_strip cell) else None))"

definition student_scores :: "string \<Rightarrow> cols \<Rightarrow> nat option \<Rightarrow> row list \<Rightarrow> int list" where
  "student_scores student c name_col data = List.map_filter (row_score student c name_col) data"

definition student_comments :: "string \<Rightarrow> cols \<Rightarrow> nat option \<Rightarrow> row list \<Rightarrow> string list" where
  "student_comments student c name_col data =
     List.map_filter (row_comment student c name_col) data"

text \<open>The two results of \<open>calculate_scores\<close> written out: one raw average for each
  student in header order, and the pool as the students' accepted ratings one student
  after the other (\<open>calculate_scores_eq\<close>).\<close>

definition raw_entries :: "row list \<Rightarrow> nat option \<Rightarrow> students \<Rightarrow> rat dict" where
  "raw_entries data name_col students =
     map (\<lambda>(s, c). (s, raw_average (student_scores s c name_col data))) students"

definition pool_entries :: "row list \<Rightarrow> nat option \<Rightarrow> students \<Rightarrow> int list" where
  "pool_entries data name_col students =
     concat (map (\<lambda>(s, c). student_scores s c name_col data) students)"


text \<open>The comments stored for a key (none when the key is absent), what a pass of the
  inner loop of \<open>extract_comments\<close> does to the dictionary when it accepts the comments
  \<open>new\<close>, and the items of the result written out (\<open>extract_comments_eq\<close>): only
  students with an accepted comment have an item.\<close>

definition comments_of :: "string list defaultdict \<Rightarrow> string \<Rightarrow> string list" where
  "comments_of d k = (case map_of (dd_items d) k of None \<Rightarrow> [] | Some cs \<Rightarrow> cs)"

definition add_comments :: "string \<Rightarrow> string list \<Rightarrow> string list defaultdict \<Rightarrow> string list defaultdict" where
  "add_comments s new d =
     (if new = [] then d
      else d\<lparr>dd_items := AList.update s (comments_of d s @ new) (dd_items d)\<rparr>)"

definition comment_entries :: "row list \<Rightarrow> nat option \<Rightarrow> students \<Rightarrow> string list dict" where
  "comment_entries data name_col students =
     filter (\<lambda>(s, cs). cs \<noteq> []) (map (\<lambda>(s, c). (s, student_comments s c name_col data)) students)"

section \<open>Properties\<close>

subsection \<open>normalize_scores on an empty score pool\<close>

text \<open>
  C7. When the flat score pool is empty, \<open>normalize_scores\<close> returns exactly the empty
  mapping, group mean 0 and adjustment 0, whatever the raw averages and the target are.
\<close>

theorem normalize_scores_empty_pool:
  "normalize_scores raw_avgs [] target = ([], 0, 0)"
  by (simp add: normalize_scores_def)

subsection \<open>The loops of calculate_scores in closed form\<close>

lemma row_rater_Inl: "row_rater row nc = Inl e \<Longrightarrow> e = IndexError"
  by (auto simp: row_rater_def list_getitem_def split: option.splits if_splits)

lemma scores_loop_eq:
  "scores_loop s c nc data (sc, al) =
     (if rows_readable nc data
      then Inr (sc @ student_scores s c nc data, al @ student_scores s c nc data)
      else Inl IndexError)"
proof (induction data arbitrary: sc al)
  case Nil
  then show ?case by (simp add: rows_readable_def student_scores_def)
next
  case (Cons row rows)
  show ?case
  proof (cases "row_rater row nc")
    case (Inl e)
    then have "e = IndexError" by (rule row_rater_Inl)
    with Inl show ?thesis by (simp add: rows_readable_def)
  next
    case (Inr rater)
    then show ?thesis
      using Cons.IH
      by (simp add: rows_readable_def student_scores_def row_score_def split: option.splits)
  qed
qed

lemma update_fresh: "k \<notin> fst ` set al \<Longrightarrow> AList.update k v al = al @ [(k, v)]"
  by (induction al) auto

lemma students_loop_eq:
  "distinct (map fst students) \<Longrightarrow> fst ` set raw0 \<inter> fst ` set students = {} \<Longrightarrow>
   students_loop data nc students (raw0, all0) =
     (if students = [] \<or> rows_readable nc data
      then Inr (raw0 @ raw_entries data nc students, all0 @ pool_entries data nc students)
      else Inl IndexError)"
proof (induction students arbitrary: raw0 all0)
  case Nil
  then show ?case by (simp add: raw_entries_def pool_entries_def)
next
  case (Cons p rest)
  obtain s c where p: "p = (s, c)" by (cases p)
  have fresh: "s \<notin> fst ` set raw0" using Cons.prems(2) p by auto
  have d: "distinct (map fst rest)" using Cons.prems(1) by simp
  have disj: "fst ` set (raw0 @ [(s, v)]) \<inter> fst ` set rest = {}" for v
    using Cons.prems p by auto
  show ?case
    using Cons.IH[OF d disj]
    by (simp add: p scores_loop_eq dict_setitem_def update_fresh[OF fresh]
          raw_entries_def pool_entries_def)
qed

lemma calculate_scores_eq:
  "distinct (map fst students) \<Longrightarrow>
   calculate_scores data students nc =
     (if students = [] \<or> rows_readable nc data
      then Inr (raw_entries data nc students, pool_entries data nc students)
      else Inl IndexError)"
  using students_loop_eq[of students "[]" data nc "[]"]
  by (simp add: calculate_scores_def)

subsection \<open>Rounding and the loop of normalize_scores\<close>

lemma py_round_nearest: "\<bar>of_int (py_round x) - x\<bar> \<le> 1 / 2"
proof -
  define f where "f = \<lfloor>x\<rfloor>"
  have "of_int f \<le> x" "x < of_int f + 1" unfolding f_def by linarith+
  then show ?thesis
    unfolding py_round_def Let_def f_def[symmetric]
    by (simp add: abs_if)
qed

lemma set_update_subset: "set (AList.update k v al) \<subseteq> insert (k, v) (set al)"
  by (induction al) auto

lemma normalise_loop_keys:
  "fst ` set (normalise_loop adj raw acc) = fst ` set acc \<union> fst ` set raw"
  by (induction adj raw acc rule: normalise_loop.induct)
     (auto simp: dict_setitem_def dom_update)

lemma normalise_loop_entries:
  "(s, v) \<in> set (normalise_loop adj raw acc) \<Longrightarrow>
   (s, v) \<in> set acc \<or> (\<exists>r. (s, r) \<in> set raw \<and> v = max 0 (min 9 (py_round (r + adj))))"
proof (induction adj raw acc rule: normalise_loop.induct)
  case (1 adj acc)
  then show ?case by simp
next
  case (2 adj student raw rest acc)
  from 2 have "(s, v) \<in> set (dict_setitem student (max 0 (min 9 (py_round (raw + adj)))) acc)
     \<or> (\<exists>r. (s, r) \<in> set rest \<and> v = max 0 (min 9 (py_round (r + adj))))"
    by simp
  then show ?case
    using set_update_subset[of student "max 0 (min 9 (py_round (raw + adj)))" acc]
    by (auto simp: dict_setitem_def)
qed

subsection \<open>The range of the normalised scores\<close>

text \<open>
  C1. Every score in the mapping that \<open>normalize_scores\<close> returns is an integer between 0
  and 9: it is the student's raw average plus the adjustment, rounded to the nearest
  integer (at most one half away) and then clamped to 0 below and 9 above. This holds for
  any raw averages, any pool and any target.
\<close>

theorem normalize_scores_range:
  assumes "normalize_scores raw_avgs all_scores target = (normalised, group_mean, adjustment)"
    and "(student, score) \<in> set normalised"
  shows "0 \<le> score \<and> score \<le> 9 \<and>
         (\<exists>raw. (student, raw) \<in> set raw_avgs \<and>
                score = max 0 (min 9 (py_round (raw + adjustment))) \<and>
                \<bar>of_int (py_round (raw + adjustment)) - (raw + adjustment)\<bar> \<le> 1 / 2)"
proof -
  from assms have ne: "all_scores \<noteq> []"
    by (auto simp: normalize_scores_def split: if_splits)
  with assms(1) have n: "normalised = normalise_loop adjustment raw_avgs []"
    by (auto simp: normalize_scores_def Let_def)
  from normalise_loop_entries[of student score adjustment raw_avgs "[]"] assms(2) n
  obtain raw where r: "(student, raw) \<in> set raw_avgs"
      "score = max 0 (min 9 (py_round (raw + adjustment)))"
    by auto
  from r(2) have "0 \<le> score \<and> score \<le> 9" by simp
  with r py_round_nearest[of "raw + adjustment"] show ?thesis by blast
qed

text \<open>A raw average of 9.8 with adjustment +1 rounds to 11 and is clamped to 9.\<close>

theorem normalize_scores_range_witness:
  "normalize_scores [(''Alice'', 49 / 5), (''Bob'', 5 / 2)] [4] 5
     = ([(''Alice'', 9), (''Bob'', 4)], 4, 1) \<and>
   (''Alice'', 9) \<in> set [(''Alice'', 9::int), (''Bob'', 4)] \<and>
   (0::int) \<le> 9 \<and> (9::int) \<le> 9 \<and>
   (\<exists>raw. (''Alice'', raw) \<in> set [(''Alice'', 49 / 5), (''Bob'', 5 / 2)] \<and>
          9 = max 0 (min 9 (py_round (raw + 1))) \<and>
          \<bar>of_int (py_round (raw + 1)) - (raw + 1)\<bar> \<le> 1 / 2)"
proof -
  have h1: "normalize_scores [(''Alice'', 49 / 5), (''Bob'', 5 / 2)] [4] 5
              = ([(''Alice'', 9), (''Bob'', 4)], 4, 1)"
    by code_simp
  have h2: "(''Alice'', 9) \<in> set [(''Alice'', 9::int), (''Bob'', 4)]" by simp
  from normalize_scores_range[OF h1 h2] h1 h2 show ?thesis by simp
qed

subsection \<open>The keys of the normalised scores\<close>

text \<open>
  C9. When the flat score pool is not empty, the mapping returned by \<open>normalize_scores\<close>
  has exactly the keys of the raw-average mapping it was given.
\<close>

theorem normalize_scores_keys:
  "all_scores \<noteq> [] \<Longrightarrow>
   fst ` set (fst (normalize_scores raw_avgs all_scores target)) = fst ` set raw_avgs"
  by (simp add: normalize_scores_def Let_def normalise_loop_keys)

theorem normalize_scores_keys_witness:
  "[8, 9] \<noteq> ([]::int list) \<and>
   fst ` set (fst (normalize_scores [(''Alice'', 8), (''Bob'', 9)] [8, 9] 5))
     = fst ` set [(''Alice'', 8::rat), (''Bob'', 9)]"
proof -
  have h: "[8, 9] \<noteq> ([]::int list)" by simp
  from normalize_scores_keys[OF h] h show ?thesis by blast
qed

subsection \<open>The mean of the adjusted raw averages\<close>








subsection \<open>The loops of extract_comments in closed form\<close>

lemma append_comment_eq:
  "default_factory d = Some [] \<Longrightarrow>
   append_comment s cm d = Inr (d\<lparr>dd_items := AList.update s (comments_of d s @ [cm]) (dd_items d)\<rparr>)"
  by (simp add: append_comment_def defaultdict_getitem_def comments_of_def dict_setitem_def
           split: option.splits)

lemma add_comments_step:
  "add_comments s new (d\<lparr>dd_items := AList.update s (comments_of d s @ [cm]) (dd_items d)\<rparr>)
     = add_comments s (cm # new) d"
  by (simp add: add_comments_def comments_of_def update_conv')

lemma comments_loop_eq:
  "default_factory d = Some [] \<Longrightarrow>
   comments_loop s c nc data d =
     (if rows_readable nc data then Inr (add_comments s (student_comments s c nc data) d)
      else Inl IndexError)"
proof (induction data arbitrary: d)
  case Nil
  then show ?case by (simp add: rows_readable_def student_comments_def add_comments_def)
next
  case (Cons row rows)
  show ?case
  proof (cases "row_rater row nc")
    case (Inl e)
    then have "e = IndexError" by (rule row_rater_Inl)
    with Inl show ?thesis by (simp add: rows_readable_def)
  next
    case (Inr rater)
    let ?d1 = "\<lambda>cm. d\<lparr>dd_items := AList.update s (comments_of d s @ [cm]) (dd_items d)\<rparr>"
    have f1: "default_factory (?d1 cm) = Some []" for cm using Cons.prems by simp
    have IH1: "comments_loop s c nc rows (?d1 cm) =
      (if rows_readable nc rows then Inr (add_comments s (cm # student_comments s c nc rows) d)
       else Inl IndexError)" for cm
      using Cons.IH[OF f1] by (simp only: add_comments_step)
    show ?thesis
      using Inr Cons.IH[OF Cons.prems] IH1
      by (simp add: rows_readable_def student_comments_def row_comment_def
            append_comment_eq[OF Cons.prems] Let_def list_getitem_def
            split: sum.splits)
  qed
qed

lemma add_comments_factory: "default_factory (add_comments s new d) = default_factory d"
  by (simp add: add_comments_def)

lemma add_comments_fresh:
  "s \<notin> fst ` set (dd_items d) \<Longrightarrow>
   dd_items (add_comments s new d) = dd_items d @ (if new = [] then [] else [(s, new)])"
proof -
  assume a: "s \<notin> fst ` set (dd_items d)"
  then have "map_of (dd_items d) s = None" by (simp add: map_of_eq_None_iff)
  then show ?thesis
    by (simp add: add_comments_def comments_of_def update_fresh[OF a])
qed

lemma comments_students_loop_eq:
  "distinct (map fst students) \<Longrightarrow> fst ` set (dd_items d) \<inter> fst ` set students = {} \<Longrightarrow>
   default_factory d = Some [] \<Longrightarrow>
   comments_students_loop data nc students d =
     (if students = [] \<or> rows_readable nc data
      then Inr (d\<lparr>dd_items := dd_items d @ comment_entries data nc students\<rparr>)
      else Inl IndexError)"
proof (induction students arbitrary: d)
  case Nil
  then show ?case by (simp add: comment_entries_def)
next
  case (Cons p rest)
  obtain s c where p: "p = (s, c)" by (cases p)
  let ?new = "student_comments s c nc data"
  let ?d1 = "add_comments s ?new d"
  have fresh: "s \<notin> fst ` set (dd_items d)" using Cons.prems(2) p by auto
  have items1: "dd_items ?d1 = dd_items d @ (if ?new = [] then [] else [(s, ?new)])"
    by (rule add_comments_fresh[OF fresh])
  have d: "distinct (map fst rest)" using Cons.prems(1) by simp
  have disj: "fst ` set (dd_items ?d1) \<inter> fst ` set rest = {}"
    using Cons.prems(1,2) p by (auto simp: items1)
  have f1: "default_factory ?d1 = Some []"
    using Cons.prems(3) by (simp add: add_comments_factory)
  have upd: "?d1\<lparr>dd_items := dd_items ?d1 @ xs\<rparr>
         = d\<lparr>dd_items := dd_items d @ (if ?new = [] then [] else [(s, ?new)]) @ xs\<rparr>" for xs
    by (simp add: add_comments_def items1[symmetric])
  show ?case
    using Cons.IH[OF d disj f1]
    by (simp add: p comments_loop_eq[OF Cons.prems(3)] upd comment_entries_def)
qed

lemma extract_comments_eq:
  "distinct (map fst students) \<Longrightarrow>
   extract_comments data students nc =
     (if students = [] \<or> rows_readable nc data
      then Inr \<lparr>dd_items = comment_entries data nc students, default_factory = Some []\<rparr>
      else Inl IndexError)"
  using comments_students_loop_eq[of students "\<lparr>dd_items = [], default_factory = Some []\<rparr>" data nc]
  by (simp add: extract_comments_def)

lemma map_of_raw_entries:
  "map_of (raw_entries data nc students) s =
     map_option (\<lambda>c. raw_average (student_scores s c nc data)) (map_of students s)"
  by (induction students) (auto simp: raw_entries_def)

lemma map_of_comment_entries:
  "distinct (map fst students) \<Longrightarrow>
   map_of (comment_entries data nc students) s =
     (case map_of students s of
        None \<Rightarrow> None
      | Some c \<Rightarrow> if student_comments s c nc data = [] then None
                  else Some (student_comments s c nc data))"
proof (induction students)
  case Nil
  then show ?case by (simp add: comment_entries_def)
next
  case (Cons p rest)
  obtain s' c' where p: "p = (s', c')" by (cases p)
  from Cons have IH: "map_of (comment_entries data nc rest) s =
     (case map_of rest s of None \<Rightarrow> None
      | Some c \<Rightarrow> if student_comments s c nc data = [] then None
                  else Some (student_comments s c nc data))" by simp
  have "s' \<notin> fst ` set rest" using Cons.prems p by auto
  then have none: "map_of rest s' = None" by (simp add: map_of_eq_None_iff)
  show ?case
  proof (cases "s = s'")
    case True
    have "map_of (comment_entries data nc rest) s' = None"
      using IH none True by simp
    then show ?thesis using True none
      by (simp add: p comment_entries_def)
  next
    case False
    then show ?thesis using IH
      by (simp add: p comment_entries_def)
  qed
qed

subsection \<open>Self-rating rows, students without ratings, reads of the comments\<close>

lemma rows_readable_drop:
  "rows_readable nc (pre @ row # post) \<Longrightarrow> rows_readable nc (pre @ post)"
  by (simp add: rows_readable_def)

lemma student_scores_drop_self:
  "row_rater row nc = Inr (Some s) \<Longrightarrow>
   student_scores s c nc (pre @ row # post) = student_scores s c nc (pre @ post)"
  by (simp add: student_scores_def List.map_filter_def row_score_def)

lemma student_comments_drop_self:
  "row_rater row nc = Inr (Some s) \<Longrightarrow>
   student_comments s c nc (pre @ row # post) = student_comments s c nc (pre @ post)"
  by (simp add: student_comments_def List.map_filter_def row_comment_def)

text \<open>
  C2. A row whose identity cell is exactly a student's name contributes neither to that
  student's raw average nor to the student's comments: with the row taken out of the
  data both functions still return, and the student's raw average and comment list are
  the same. Nothing is assumed about the rating and justification cells of the row.
\<close>

theorem self_rating_row_contributes_nothing:
  assumes "distinct (map fst students)"
    and "name_col = Some i" and "i < length row" and "row ! i = student"
    and "calculate_scores (pre @ row # post) students name_col = Inr (raw_avgs, all_scores)"
    and "extract_comments (pre @ row # post) students name_col = Inr comments"
  shows "\<exists>raw_avgs' all_scores' comments'.
           calculate_scores (pre @ post) students name_col = Inr (raw_avgs', all_scores') \<and>
           extract_comments (pre @ post) students name_col = Inr comments' \<and>
           map_of raw_avgs' student = map_of raw_avgs student \<and>
           map_of (dd_items comments') student = map_of (dd_items comments) student"
proof -
  have self: "row_rater row name_col = Inr (Some student)"
    using assms(2,3,4) by (simp add: row_rater_def list_getitem_def)
  from assms(1,5) have ok: "students = [] \<or> rows_readable name_col (pre @ row # post)"
    and raw: "raw_avgs = raw_entries (pre @ row # post) name_col students"
    by (auto simp: calculate_scores_eq split: if_splits)
  from assms(1,6) have com: "dd_items comments = comment_entries (pre @ row # post) name_col students"
    by (auto simp: extract_comments_eq split: if_splits)
  from ok have ok': "students = [] \<or> rows_readable name_col (pre @ post)"
    using rows_readable_drop by blast
  have c1: "calculate_scores (pre @ post) students name_col
      = Inr (raw_entries (pre @ post) name_col students, pool_entries (pre @ post) name_col students)"
    using ok' by (simp add: calculate_scores_eq[OF assms(1)])
  have c2: "extract_comments (pre @ post) students name_col
      = Inr \<lparr>dd_items = comment_entries (pre @ post) name_col students, default_factory = Some []\<rparr>"
    using ok' by (simp add: extract_comments_eq[OF assms(1)])
  have r: "map_of (raw_entries (pre @ post) name_col students) student = map_of raw_avgs student"
    by (simp add: raw map_of_raw_entries student_scores_drop_self[OF self])
  have m: "map_of (comment_entries (pre @ post) name_col students) student
      = map_of (dd_items comments) student"
    by (simp add: com map_of_comment_entries[OF assms(1)] student_comments_drop_self[OF self]
          split: option.splits)
  from c1 c2 r m show ?thesis by simp
qed

text \<open>Scenario A of the specification: Alice's own row holds the valid rating 9 and
  the comment n/a; her raw average is 8 and her only comment is the one from Bob, with the
  row and without it.\<close>

theorem self_rating_row_contributes_nothing_witness:
  "distinct (map fst [(''Alice'', \<lparr>overall = 3, justification = 4\<rparr>)]) \<and>
   0 < length [''Alice'', ''x'', ''y'', ''9'', ''n/a''] \<and>
   [''Alice'', ''x'', ''y'', ''9'', ''n/a''] ! 0 = ''Alice'' \<and>
   rating_cell [''Alice'', ''x'', ''y'', ''9'', ''n/a''] 3 = Some 9 \<and>
   py_strip ([''Alice'', ''x'', ''y'', ''9'', ''n/a''] ! 4) = ''n/a'' \<and>
   calculate_scores
     [[''Bob'', ''x'', ''y'', ''8'', ''great work''], [''Alice'', ''x'', ''y'', ''9'', ''n/a'']]
     [(''Alice'', \<lparr>overall = 3, justification = 4\<rparr>)] (Some 0)
     = Inr ([(''Alice'', 8)], [8]) \<and>
   extract_comments
     [[''Bob'', ''x'', ''y'', ''8'', ''great work''], [''Alice'', ''x'', ''y'', ''9'', ''n/a'']]
     [(''Alice'', \<lparr>overall = 3, justification = 4\<rparr>)] (Some 0)
     = Inr \<lparr>dd_items = [(''Alice'', [''great work''])], default_factory = Some []\<rparr> \<and>
   (\<exists>raw_avgs' all_scores' comments'.
      calculate_scores [[''Bob'', ''x'', ''y'', ''8'', ''great work'']]
        [(''Alice'', \<lparr>overall = 3, justification = 4\<rparr>)] (Some 0) = Inr (raw_avgs', all_scores') \<and>
      extract_comments [[''Bob'', ''x'', ''y'', ''8'', ''great work'']]
        [(''Alice'', \<lparr>overall = 3, justification = 4\<rparr>)] (Some 0) = Inr comments' \<and>
      map_of raw_avgs' ''Alice'' = Some 8 \<and>
      map_of (dd_items comments') ''Alice'' = Some [''great work''])"
proof -
  let ?S = "[(''Alice'', \<lparr>overall = 3, justification = 4\<rparr>)]"
  let ?r1 = "[''Bob'', ''x'', ''y'', ''8'', ''great work'']"
  let ?r2 = "[''Alice'', ''x'', ''y'', ''9'', ''n/a'']"
  have h1: "distinct (map fst ?S)" by simp
  have h3: "0 < length ?r2" by simp
  have h4: "?r2 ! 0 = ''Alice''" by simp
  have r: "rating_cell ?r2 3 = Some 9" by code_simp
  have j: "py_strip (?r2 ! 4) = ''n/a''" by code_simp
  have h5: "calculate_scores ([?r1] @ ?r2 # []) ?S (Some 0) = Inr ([(''Alice'', 8)], [8])"
    by code_simp
  have h6: "extract_comments ([?r1] @ ?r2 # []) ?S (Some 0)
              = Inr \<lparr>dd_items = [(''Alice'', [''great work''])], default_factory = Some []\<rparr>"
    by code_simp
  from self_rating_row_contributes_nothing[OF h1 refl h3 h4 h5 h6] h1 h3 h4 r j h5 h6
  show ?thesis by simp
qed

lemma student_scores_none:
  "\<forall>row \<in> set data. row_rater row nc = Inr (Some s) \<or> rating_cell row (overall c) = None \<Longrightarrow>
   student_scores s c nc data = []"
  by (induction data) (auto simp: student_scores_def row_score_def)

text \<open>The claim C8 as stated fails on an empty pool: Alice is registered and the only
  rating cell for her does not parse; she is a key of the raw averages, but the normalised
  mapping is empty and the comments hold no item for her.\<close>

theorem student_without_ratings_counterexample:
  "calculate_scores [[''Bob'', ''n/a'', '''']] [(''Alice'', \<lparr>overall = 1, justification = 2\<rparr>)] (Some 0)
     = Inr ([(''Alice'', 0)], []) \<and>
   rating_cell [''Bob'', ''n/a'', ''''] 1 = None \<and>
   normalize_scores [(''Alice'', 0)] [] 5 = ([], 0, 0) \<and>
   dict_getitem (fst (normalize_scores [(''Alice'', 0)] [] 5)) ''Alice'' = Inl KeyError \<and>
   extract_comments [[''Bob'', ''n/a'', '''']] [(''Alice'', \<lparr>overall = 1, justification = 2\<rparr>)] (Some 0)
     = Inr \<lparr>dd_items = [], default_factory = Some []\<rparr> \<and>
   map_of ([]::string list dict) ''Alice'' = None"
  by code_simp

text \<open>
  C8 (amended). A registered student for whom no row both passes self-exclusion and holds
  a parseable rating has raw average 0 and is a key of the raw averages. The student is a
  key of the normalised scores exactly when the score pool is not empty, and a key of the
  comments exactly when the student has an accepted comment.
\<close>

theorem student_without_ratings:
  assumes "distinct (map fst students)"
    and "(student, c) \<in> set students"
    and "\<forall>row \<in> set data. row_rater row name_col = Inr (Some student)
                            \<or> rating_cell row (overall c) = None"
    and "calculate_scores data students name_col = Inr (raw_avgs, all_scores)"
    and "normalize_scores raw_avgs all_scores target = (normalised, group_mean, adjustment)"
    and "extract_comments data students name_col = Inr comments"
  shows "map_of raw_avgs student = Some 0 \<and>
         (student \<in> fst ` set normalised \<longleftrightarrow> all_scores \<noteq> []) \<and>
         (student \<in> fst ` set (dd_items comments) \<longleftrightarrow> student_comments student c name_col data \<noteq> [])"
proof -
  from assms(1,2) have ms: "map_of students student = Some c" by simp
  from assms(1,4) have raw: "raw_avgs = raw_entries data name_col students"
    by (auto simp: calculate_scores_eq split: if_splits)
  from assms(1,6) have com: "dd_items comments = comment_entries data name_col students"
    by (auto simp: extract_comments_eq split: if_splits)
  have r0: "map_of raw_avgs student = Some 0"
    by (simp add: raw map_of_raw_entries ms student_scores_none[OF assms(3)] raw_average_def)
  then have key: "student \<in> fst ` set raw_avgs"
    by (metis map_of_eq_None_iff option.distinct(1))
  have n: "student \<in> fst ` set normalised \<longleftrightarrow> all_scores \<noteq> []"
  proof (cases "all_scores = []")
    case True
    with assms(5) show ?thesis by (simp add: normalize_scores_def)
  next
    case False
    with assms(5) have "normalised = normalise_loop adjustment raw_avgs []"
      by (auto simp: normalize_scores_def Let_def)
    with key False show ?thesis by (simp add: normalise_loop_keys)
  qed
  have "student \<in> fst ` set (dd_items comments) \<longleftrightarrow> map_of (dd_items comments) student \<noteq> None"
    by (simp add: map_of_eq_None_iff)
  also have "\<dots> \<longleftrightarrow> student_comments student c name_col data \<noteq> []"
    by (simp add: com map_of_comment_entries[OF assms(1)] ms)
  finally show ?thesis using r0 n by simp
qed

text \<open>Only Alice answered: she has no accepted rating and no accepted comment, Bob has
  one of each.\<close>

theorem student_without_ratings_witness:
  "distinct (map fst [(''Alice'', \<lparr>overall = 1, justification = 2\<rparr>),
                      (''Bob'', \<lparr>overall = 3, justification = 4\<rparr>)]) \<and>
   (''Alice'', \<lparr>overall = 1, justification = 2\<rparr>)
     \<in> set [(''Alice'', \<lparr>overall = 1, justification = 2\<rparr>), (''Bob'', \<lparr>overall = 3, justification = 4\<rparr>)] \<and>
   row_rater [''Alice'', ''9'', ''me'', ''7'', ''solid''] (Some 0) = Inr (Some ''Alice'') \<and>
   calculate_scores [[''Alice'', ''9'', ''me'', ''7'', ''solid'']]
     [(''Alice'', \<lparr>overall = 1, justification = 2\<rparr>), (''Bob'', \<lparr>overall = 3, justification = 4\<rparr>)]
     (Some 0)
     = Inr ([(''Alice'', 0), (''Bob'', 7)], [7]) \<and>
   normalize_scores [(''Alice'', 0), (''Bob'', 7)] [7] 5 = ([(''Alice'', 0), (''Bob'', 5)], 7, - 2) \<and>
   extract_comments [[''Alice'', ''9'', ''me'', ''7'', ''solid'']]
     [(''Alice'', \<lparr>overall = 1, justification = 2\<rparr>), (''Bob'', \<lparr>overall = 3, justification = 4\<rparr>)]
     (Some 0)
     = Inr \<lparr>dd_items = [(''Bob'', [''solid''])], default_factory = Some []\<rparr> \<and>
   map_of [(''Alice'', 0::rat), (''Bob'', 7)] ''Alice'' = Some 0 \<and>
   ''Alice'' \<in> fst ` set [(''Alice'', 0::int), (''Bob'', 5)] \<and>
   ''Alice'' \<notin> fst ` set [(''Bob'', [''solid''])] \<and>
   student_comments ''Alice'' \<lparr>overall = 1, justification = 2\<rparr> (Some 0)
     [[''Alice'', ''9'', ''me'', ''7'', ''solid'']] = []"
proof -
  let ?S = "[(''Alice'', \<lparr>overall = 1, justification = 2\<rparr>),
             (''Bob'', \<lparr>overall = 3, justification = 4\<rparr>)]"
  let ?D = "[[''Alice'', ''9'', ''me'', ''7'', ''solid'']]"
  have h1: "distinct (map fst ?S)" by simp
  have h2: "(''Alice'', \<lparr>overall = 1, justification = 2\<rparr>) \<in> set ?S" by simp
  have r: "row_rater [''Alice'', ''9'', ''me'', ''7'', ''solid''] (Some 0) = Inr (Some ''Alice'')"
    by code_simp
  then have h3: "\<forall>row \<in> set ?D. row_rater row (Some 0) = Inr (Some ''Alice'')
                     \<or> rating_cell row (overall \<lparr>overall = 1, justification = 2\<rparr>) = None"
    by simp
  have h4: "calculate_scores ?D ?S (Some 0) = Inr ([(''Alice'', 0), (''Bob'', 7)], [7])"
    by code_simp
  have h5: "normalize_scores [(''Alice'', 0), (''Bob'', 7)] [7] 5
              = ([(''Alice'', 0), (''Bob'', 5)], 7, - 2)"
    by code_simp
  have h6: "extract_comments ?D ?S (Some 0)
              = Inr \<lparr>dd_items = [(''Bob'', [''solid''])], default_factory = Some []\<rparr>"
    by code_simp
  from student_without_ratings[OF h1 h2 h3 h4 h5 h6] h1 h2 r h4 h5 h6
  show ?thesis by simp
qed

text \<open>
  C10. A read of any name in the mapping returned by \<open>extract_comments\<close> succeeds: it
  yields the list of the student's accepted comments in row order, which is empty for a
  student with none, and the empty list for a name that is not registered.
\<close>

theorem comments_lookup_total:
  assumes "distinct (map fst students)"
    and "extract_comments data students name_col = Inr comments"
  shows "\<exists>cs comments'.
           defaultdict_getitem comments name = Inr (cs, comments') \<and>
           (name \<notin> fst ` set students \<longrightarrow> cs = []) \<and>
           (\<forall>c. (name, c) \<in> set students \<longrightarrow> cs = student_comments name c name_col data)"
proof -
  from assms have com: "comments = \<lparr>dd_items = comment_entries data name_col students, default_factory = Some []\<rparr>"
    by (auto simp: extract_comments_eq split: if_splits)
  have m: "map_of (dd_items comments) name =
     (case map_of students name of
        None \<Rightarrow> None
      | Some c \<Rightarrow> if student_comments name c name_col data = [] then None
                  else Some (student_comments name c name_col data))"
    by (simp add: com map_of_comment_entries[OF assms(1)])
  have f: "default_factory comments = Some []" by (simp add: com)
  show ?thesis
  proof (cases "map_of students name")
    case None
    then have notin: "name \<notin> fst ` set students" by (simp add: map_of_eq_None_iff)
    then have no: "(name, c) \<notin> set students" for c by force
    from None m f notin no show ?thesis
      by (simp add: defaultdict_getitem_def)
  next
    case (Some c)
    then have mem: "(name, c) \<in> set students" by (rule map_of_SomeD)
    have uniq: "c' = c" if "(name, c') \<in> set students" for c'
      using that Some assms(1) by simp
    from mem have isin: "name \<in> fst ` set students" by force
    have look: "map_of (dd_items comments) name =
        (if student_comments name c name_col data = [] then None
         else Some (student_comments name c name_col data))"
      using m Some by simp
    have "\<exists>comments'. defaultdict_getitem comments name
             = Inr (student_comments name c name_col data, comments')"
      using look f by (simp add: defaultdict_getitem_def)
    with isin uniq show ?thesis by blast
  qed
qed

text \<open>Bob is registered and his only justification cell is blank: the read of his name
  gives the empty list.\<close>

theorem comments_lookup_total_witness:
  "distinct (map fst [(''Alice'', \<lparr>overall = 1, justification = 2\<rparr>),
                      (''Bob'', \<lparr>overall = 3, justification = 4\<rparr>)]) \<and>
   extract_comments [[''Carol'', ''8'', ''great'', ''7'', '' '']]
     [(''Alice'', \<lparr>overall = 1, justification = 2\<rparr>), (''Bob'', \<lparr>overall = 3, justification = 4\<rparr>)]
     (Some 0)
     = Inr \<lparr>dd_items = [(''Alice'', [''great''])], default_factory = Some []\<rparr> \<and>
   student_comments ''Bob'' \<lparr>overall = 3, justification = 4\<rparr> (Some 0)
     [[''Carol'', ''8'', ''great'', ''7'', '' '']] = [] \<and>
   (\<exists>comments'. defaultdict_getitem
        \<lparr>dd_items = [(''Alice'', [''great''])], default_factory = Some []\<rparr> ''Bob''
      = Inr ([], comments'))"
proof -
  let ?S = "[(''Alice'', \<lparr>overall = 1, justification = 2\<rparr>),
             (''Bob'', \<lparr>overall = 3, justification = 4\<rparr>)]"
  let ?D = "[[''Carol'', ''8'', ''great'', ''7'', '' '']]"
  have h1: "distinct (map fst ?S)" by simp
  have h2: "extract_comments ?D ?S (Some 0)
              = Inr \<lparr>dd_items = [(''Alice'', [''great''])], default_factory = Some []\<rparr>"
    by code_simp
  have e: "student_comments ''Bob'' \<lparr>overall = 3, justification = 4\<rparr> (Some 0) ?D = []"
    by code_simp
  have m: "(''Bob'', \<lparr>overall = 3, justification = 4\<rparr>) \<in> set ?S" by simp
  from comments_lookup_total[OF h1 h2, of "''Bob''"] m e
  have "\<exists>comments'. defaultdict_getitem
        \<lparr>dd_items = [(''Alice'', [''great''])], default_factory = Some []\<rparr> ''Bob''
      = Inr ([], comments')"
    by fastforce
  with h1 h2 e show ?thesis by blast
qed

subsection \<open>The reports\<close>

lemma table_rows_Median:
  "Median m \<in> set (fst (table_rows raw_avgs normalised num ss out)) \<Longrightarrow> Median m \<in> set out"
  by (induction raw_avgs normalised num ss out rule: table_rows.induct)
     (auto split: sum.splits)

lemma feedback_blocks_Median:
  "Median m \<in> set (fst (feedback_blocks normalised comments ss out)) \<Longrightarrow> Median m \<in> set out"
proof (induction normalised comments ss out rule: feedback_blocks.induct)
  case (1 normalised comments out)
  then show ?case by simp
next
  case (2 normalised comments student rest out)
  show ?case
  proof (cases "dict_getitem normalised student")
    case (Inl e)
    with "2.prems" show ?thesis by simp
  next
    case sc: (Inr score)
    show ?thesis
    proof (cases "defaultdict_getitem comments student")
      case (Inl e)
      with sc "2.prems" show ?thesis by simp
    next
      case g1: (Inr p)
      obtain cs comments1 where p: "p = (cs, comments1)" by (cases p)
      show ?thesis
      proof (cases "cs = []")
        case True
        with "2.IH"(2)[OF refl sc refl g1[unfolded p] refl] "2.prems" sc g1 p
        show ?thesis by simp
      next
        case False
        show ?thesis
        proof (cases "defaultdict_getitem comments1 student")
          case (Inl e)
          with sc g1 p False "2.prems" show ?thesis by simp
        next
          case g2: (Inr q)
          obtain cs' comments2 where q: "q = (cs', comments2)" by (cases q)
          from "2.IH"(1)[OF refl sc refl g1[unfolded p] refl False refl g2[unfolded q] refl]
            "2.prems" sc g1 p False g2 q
          show ?thesis by auto
        qed
      qed
    qed
  qed
qed

lemma feedback_blocks_joined_Median:
  "Median m \<in> set (fst (feedback_blocks_joined normalised comments ss out)) \<Longrightarrow> Median m \<in> set out"
proof (induction normalised comments ss out rule: feedback_blocks_joined.induct)
  case (1 normalised comments out)
  then show ?case by simp
next
  case (2 normalised comments student rest out)
  show ?case
  proof (cases "dict_getitem normalised student")
    case (Inl e)
    with "2.prems" show ?thesis by simp
  next
    case sc: (Inr score)
    show ?thesis
    proof (cases "defaultdict_getitem comments student")
      case (Inl e)
      with sc "2.prems" show ?thesis by simp
    next
      case g1: (Inr p)
      obtain cs comments1 where p: "p = (cs, comments1)" by (cases p)
      show ?thesis
      proof (cases "cs = []")
        case True
        with "2.IH"(2)[OF refl sc refl g1[unfolded p] refl] "2.prems" sc g1 p
        show ?thesis by simp
      next
        case False
        show ?thesis
        proof (cases "defaultdict_getitem comments1 student")
          case (Inl e)
          with sc g1 p False "2.prems" show ?thesis by simp
        next
          case g2: (Inr q)
          obtain cs' comments2 where q: "q = (cs', comments2)" by (cases q)
          from "2.IH"(1)[OF refl sc refl g1[unfolded p] refl False refl g2[unfolded q] refl]
            "2.prems" sc g1 p False g2 q
          show ?thesis by auto
        qed
      qed
    qed
  qed
qed

lemma report_head_Median: "Median m \<notin> set (report_head fc students gm adj title)"
  by (simp add: report_head_def)

lemma generate_report_Median:
  assumes "Median m \<in> set (fst (generate_report students raw_avgs normalised comments gm adj title))"
  shows "m = median (sort (map snd normalised))"
proof -
  let ?t = "table_rows raw_avgs normalised 1 (map fst students) (report_head ''#'' students gm adj title)"
  have t: "Median m \<notin> set (fst ?t)"
    using table_rows_Median report_head_Median by blast
  show ?thesis
  proof (cases "snd ?t")
    case None
    with assms have "Median m \<in> set (fst ?t @ [Rule CHR ''-''] @ group_statistics normalised
                  @ [Rule CHR ''='', IndividualFeedback, Rule CHR ''=''])"
      by (auto simp: generate_report_def Let_def split: prod.splits dest: feedback_blocks_Median)
    with t show ?thesis by (auto simp: group_statistics_def Let_def)
  next
    case (Some e)
    with assms t show ?thesis
      by (auto simp: generate_report_def Let_def split: prod.splits)
  qed
qed

lemma generate_report_ranked_Median:
  assumes "Median m \<in> set (fst (generate_report_ranked students raw_avgs normalised comments gm adj title))"
  shows "m = median (sort (map snd normalised))"
proof -
  let ?t = "table_rows raw_avgs normalised 1
              (sort_key (\<lambda>s. - dict_get normalised s 0) (map fst students))
              (report_head ''Rank'' students gm adj title)"
  have t: "Median m \<notin> set (fst ?t)"
    using table_rows_Median report_head_Median by blast
  show ?thesis
  proof (cases "snd ?t")
    case None
    with assms have "Median m \<in> set (fst ?t @ [Rule CHR ''-''] @ group_statistics normalised
                  @ [Rule CHR ''='', IndividualFeedback, Rule CHR ''=''])"
      by (auto simp: generate_report_ranked_def Let_def split: prod.splits
               dest: feedback_blocks_joined_Median)
    with t show ?thesis by (auto simp: group_statistics_def Let_def)
  next
    case (Some e)
    with assms t show ?thesis
      by (auto simp: generate_report_ranked_def Let_def split: prod.splits)
  qed
qed

lemma median_upper_middle:
  "(xs = [] \<longrightarrow> median (sort xs) = 0) \<and>
   (xs \<noteq> [] \<longrightarrow> median (sort xs) \<in> set xs \<and> median (sort xs) = sort xs ! (length xs div 2))"
proof (cases "xs = []")
  case True
  then show ?thesis by (simp add: median_def)
next
  case False
  then have "length xs div 2 < length (sort xs)" by simp
  then have "sort xs ! (length xs div 2) \<in> set (sort xs)" by (rule nth_mem)
  then have mem: "sort xs ! (length xs div 2) \<in> set xs" by simp
  have ne: "sort xs \<noteq> []" using False by (metis length_0_conv length_sort)
  from False mem ne show ?thesis by (simp add: median_def)
qed

text \<open>The claim C6 as stated fails for an even count: for the scores 3 and 7 the element
  at index count div 2 - 1 of the sorted list is 3, and both reports display 7.\<close>

theorem report_median_counterexample:
  "calculate_scores [[''Carol'', ''3'', ''fine'', ''7'', '''']]
     [(''Alice'', \<lparr>overall = 1, justification = 2\<rparr>), (''Bob'', \<lparr>overall = 3, justification = 4\<rparr>)]
     (Some 0)
     = Inr ([(''Alice'', 3), (''Bob'', 7)], [3, 7]) \<and>
   normalize_scores [(''Alice'', 3), (''Bob'', 7)] [3, 7] 5 = ([(''Alice'', 3), (''Bob'', 7)], 5, 0) \<and>
   sort (map snd [(''Alice'', 3::int), (''Bob'', 7)]) = [3, 7] \<and>
   [3, 7::int] ! (length [3, 7::int] div 2 - 1) = 3 \<and>
   Median 7 \<in> set (fst (run_report [[''Carol'', ''3'', ''fine'', ''7'', '''']]
     [(''Alice'', \<lparr>overall = 1, justification = 2\<rparr>), (''Bob'', \<lparr>overall = 3, justification = 4\<rparr>)]
     (Some 0))) \<and>
   Median 3 \<notin> set (fst (run_report [[''Carol'', ''3'', ''fine'', ''7'', '''']]
     [(''Alice'', \<lparr>overall = 1, justification = 2\<rparr>), (''Bob'', \<lparr>overall = 3, justification = 4\<rparr>)]
     (Some 0))) \<and>
   Median 7 \<in> set (fst (run_report_ranked [[''Carol'', ''3'', ''fine'', ''7'', '''']]
     [(''Alice'', \<lparr>overall = 1, justification = 2\<rparr>), (''Bob'', \<lparr>overall = 3, justification = 4\<rparr>)]
     (Some 0))) \<and>
   Median 3 \<notin> set (fst (run_report_ranked [[''Carol'', ''3'', ''fine'', ''7'', '''']]
     [(''Alice'', \<lparr>overall = 1, justification = 2\<rparr>), (''Bob'', \<lparr>overall = 3, justification = 4\<rparr>)]
     (Some 0)))"
  by code_simp

text \<open>
  C6 (amended). The median that either report displays is 0 for an empty mapping of
  normalised scores; otherwise it is one of the normalised scores, namely the element at
  index count div 2 of their sorted list, which for an even count is the upper of the two
  middle elements.
\<close>

theorem report_median_upper_middle:
  assumes "Median m \<in> set (fst (generate_report students raw_avgs normalised comments
                                  group_mean adjustment title))
         \<or> Median m \<in> set (fst (generate_report_ranked students raw_avgs normalised comments
                                  group_mean adjustment title))"
  shows "(normalised = [] \<longrightarrow> m = 0) \<and>
         (normalised \<noteq> [] \<longrightarrow>
            m \<in> snd ` set normalised \<and>
            m = sort (map snd normalised) ! (length normalised div 2))"
proof -
  from assms have "m = median (sort (map snd normalised))"
    using generate_report_Median generate_report_ranked_Median by blast
  with median_upper_middle[of "map snd normalised"] show ?thesis by force
qed

text \<open>The scores 3 and 7: the report displays 7.\<close>

theorem report_median_upper_middle_witness:
  "Median 7 \<in> set (fst (generate_report
      [(''Alice'', \<lparr>overall = 1, justification = 2\<rparr>), (''Bob'', \<lparr>overall = 3, justification = 4\<rparr>)]
      [(''Alice'', 3), (''Bob'', 7)] [(''Alice'', 3), (''Bob'', 7)]
      \<lparr>dd_items = [(''Alice'', [''fine''])], default_factory = Some []\<rparr> 5 0
      ''PEER ASSESSMENT REPORT'')) \<and>
   [(''Alice'', 3::int), (''Bob'', 7)] \<noteq> [] \<and>
   7 \<in> snd ` set [(''Alice'', 3::int), (''Bob'', 7)] \<and>
   7 = sort (map snd [(''Alice'', 3::int), (''Bob'', 7)]) ! (length [(''Alice'', 3::int), (''Bob'', 7)] div 2)"
proof -
  have h: "Median 7 \<in> set (fst (generate_report
      [(''Alice'', \<lparr>overall = 1, justification = 2\<rparr>), (''Bob'', \<lparr>overall = 3, justification = 4\<rparr>)]
      [(''Alice'', 3), (''Bob'', 7)] [(''Alice'', 3), (''Bob'', 7)]
      \<lparr>dd_items = [(''Alice'', [''fine''])], default_factory = Some []\<rparr> 5 0
      ''PEER ASSESSMENT REPORT''))"
    by code_simp
  have ne: "[(''Alice'', 3::int), (''Bob'', 7)] \<noteq> []" by simp
  from report_median_upper_middle[OF disjI1[OF h]] ne h
  show ?thesis by blast
qed

lemma table_rows_empty_normalised:
  "ss \<noteq> [] \<Longrightarrow> table_rows raw_avgs [] num ss out = (out, Some KeyError)"
  by (cases ss) (auto simp: dict_getitem_def split: option.splits)

text \<open>
  C4 (the code at the inputs of the claim). With at least one student and an empty score
  pool the normalised mapping is empty, so the first row of the summary table reads a
  missing key: both reports stop with \<open>KeyError\<close> after the header of the table.
\<close>

theorem empty_pool_report_raises:
  assumes "distinct (map fst students)" and "students \<noteq> []"
    and "calculate_scores data students name_col = Inr (raw_avgs, [])"
  shows "run_report data students name_col
           = (report_head ''#'' students 0 0 ''PEER ASSESSMENT REPORT'', Some KeyError) \<and>
         run_report_ranked data students name_col
           = (report_head ''Rank'' students 0 0 ''PEER ASSESSMENT REPORT'', Some KeyError)"
proof -
  from assms have ok: "rows_readable name_col data"
    by (auto simp: calculate_scores_eq split: if_splits)
  then have ec: "extract_comments data students name_col
      = Inr \<lparr>dd_items = comment_entries data name_col students, default_factory = Some []\<rparr>"
    by (simp add: extract_comments_eq[OF assms(1)])
  have s1: "map fst students \<noteq> []" using assms(2) by simp
  have "length (sort_key f (map fst students)) = length students" for f :: "string \<Rightarrow> int"
    by simp
  then have s2: "sort_key f (map fst students) \<noteq> []" for f :: "string \<Rightarrow> int"
    using assms(2) by (metis length_0_conv)
  show ?thesis
    by (simp add: run_report_def run_report_ranked_def assms(3) normalize_scores_def ec
          generate_report_def generate_report_ranked_def
          table_rows_empty_normalised[OF s1] table_rows_empty_normalised[OF s2])
qed

text \<open>One student and one row whose rating cell is \<open>n/a\<close>: what each script prints
  before it stops.\<close>

theorem empty_pool_report_raises_witness:
  "distinct (map fst [(''Alice'', \<lparr>overall = 1, justification = 2\<rparr>)]) \<and>
   [(''Alice'', \<lparr>overall = 1, justification = 2\<rparr>)] \<noteq> [] \<and>
   calculate_scores [[''Bob'', ''n/a'', ''did well'']] [(''Alice'', \<lparr>overall = 1, justification = 2\<rparr>)] (Some 0)
     = Inr ([(''Alice'', 0)], []) \<and>
   run_report [[''Bob'', ''n/a'', ''did well'']] [(''Alice'', \<lparr>overall = 1, justification = 2\<rparr>)] (Some 0)
     = ([Rule CHR ''='', Title ''PEER ASSESSMENT REPORT'', Rule CHR ''='', Blank,
         TotalStudents 1, GroupMeanRaw 0, NormalisationAdjustment 0, TargetMedian, Blank,
         Rule CHR ''-'', SummaryTable, Rule CHR ''-'', TableHeader ''#'', Rule CHR ''-''],
        Some KeyError) \<and>
   run_report_ranked [[''Bob'', ''n/a'', ''did well'']] [(''Alice'', \<lparr>overall = 1, justification = 2\<rparr>)] (Some 0)
     = ([Rule CHR ''='', Title ''PEER ASSESSMENT REPORT'', Rule CHR ''='', Blank,
         TotalStudents 1, GroupMeanRaw 0, NormalisationAdjustment 0, TargetMedian, Blank,
         Rule CHR ''-'', SummaryTable, Rule CHR ''-'', TableHeader ''Rank'', Rule CHR ''-''],
        Some KeyError)"
proof -
  let ?S = "[(''Alice'', \<lparr>overall = 1, justification = 2\<rparr>)]"
  have h1: "distinct (map fst ?S)" by simp
  have h2: "?S \<noteq> []" by simp
  have h3: "calculate_scores [[''Bob'', ''n/a'', ''did well'']] ?S (Some 0) = Inr ([(''Alice'', 0)], [])"
    by code_simp
  from empty_pool_report_raises[OF h1 h2 h3] h1 h2 h3
  show ?thesis by (simp add: report_head_def)
qed

text \<open>
  C3 (the code at the inputs of the claim). A row that ends before the identity column
  makes the read of the rater raise \<open>IndexError\<close> outside any handler: both
  \<open>calculate_scores\<close> and \<open>extract_comments\<close> raise, and nothing is reported.
\<close>

theorem short_row_aborts:
  assumes "distinct (map fst students)" and "students \<noteq> []"
    and "name_col = Some i" and "row \<in> set data" and "length row \<le> i"
  shows "calculate_scores data students name_col = Inl IndexError \<and>
         extract_comments data students name_col = Inl IndexError \<and>
         run_report data students name_col = ([], Some IndexError) \<and>
         run_report_ranked data students name_col = ([], Some IndexError)"
proof -
  have "row_rater row name_col = Inl IndexError"
    using assms(3,5) by (simp add: row_rater_def list_getitem_def)
  with assms(4) have "\<not> rows_readable name_col data"
    by (auto simp: rows_readable_def list_all_iff)
  with assms(1,2) show ?thesis
    by (simp add: calculate_scores_eq extract_comments_eq run_report_def run_report_ranked_def)
qed

text \<open>The identity column is column 1 and the file has an empty line, which the CSV
  reader returns as the empty row.\<close>

theorem short_row_aborts_witness:
  "distinct (map fst [(''Alice'', \<lparr>overall = 2, justification = 3\<rparr>)]) \<and>
   [(''Alice'', \<lparr>overall = 2, justification = 3\<rparr>)] \<noteq> [] \<and>
   [] \<in> set [[''t1'', ''Bob'', ''8'', ''great work''], []] \<and>
   length ([]::string list) \<le> 1 \<and>
   calculate_scores [[''t1'', ''Bob'', ''8'', ''great work''], []]
     [(''Alice'', \<lparr>overall = 2, justification = 3\<rparr>)] (Some 1) = Inl IndexError \<and>
   extract_comments [[''t1'', ''Bob'', ''8'', ''great work''], []]
     [(''Alice'', \<lparr>overall = 2, justification = 3\<rparr>)] (Some 1) = Inl IndexError \<and>
   run_report [[''t1'', ''Bob'', ''8'', ''great work''], []]
     [(''Alice'', \<lparr>overall = 2, justification = 3\<rparr>)] (Some 1) = ([], Some IndexError) \<and>
   run_report_ranked [[''t1'', ''Bob'', ''8'', ''great work''], []]
     [(''Alice'', \<lparr>overall = 2, justification = 3\<rparr>)] (Some 1) = ([], Some IndexError)"
proof -
  let ?S = "[(''Alice'', \<lparr>overall = 2, justification = 3\<rparr>)]"
  have h1: "distinct (map fst ?S)" by simp
  have h2: "?S \<noteq> []" by simp
  have h4: "[] \<in> set [[''t1'', ''Bob'', ''8'', ''great work''], []]" by simp
  have h5: "length ([]::string list) \<le> 1" by simp
  from short_row_aborts[OF h1 h2 refl h4 h5] h1 h2 h4 h5
  show ?thesis by blast
qed

end
